theory Spec2Isabelle
  imports Main "HOL-Library.Multiset" "HOL-Library.Product_Lexorder"
begin

section \<open>Data model (backend/core/models.py)\<close>

text \<open>
  The backend is a Django application: two tables, a serializer, a viewset with the
  hooks \<open>perform_create\<close>, \<open>perform_update\<close>, \<open>perform_destroy\<close>, the action
  \<open>history\<close>, and the function view \<open>external_update\<close>.  A row of a table is a
  record, a table is the list of its rows in insertion order, timestamps are readings of
  a clock counted in microseconds.
\<close>

record contact =
  pk :: int
  first_name :: string
  last_name :: string
  email :: string
  phone :: string
  created_at :: nat
  updated_at :: nat

record contact_version =
  v_pk :: int
  v_contact :: int
  v_first_name :: string
  v_last_name :: string
  v_email :: string
  v_phone :: string
  edited_at :: nat
  edited_reason :: string

text \<open>
  What is sent to the channel layer: the event type and its payload, either the
  serialized contact or \<open>{"id": contact_id}\<close>.
\<close>

datatype payload = ContactData contact | IdOnly int

text \<open>
  Effects that are observable outside the tables, in the order they happen: the end of
  an outermost \<open>transaction.atomic\<close> block (commit or rollback) and a \<open>group_send\<close>
  to the group \<open>contacts\<close>.
\<close>

datatype effect = Commit | Rollback | GroupSend string payload

record state =
  contacts :: "contact list"
  versions :: "contact_version list"
  contact_seq :: int
  version_seq :: int
  clock :: nat
  log :: "effect list"

definition init_state :: state where
  "init_state = \<lparr>contacts = [], versions = [], contact_seq = 0, version_seq = 0,
     clock = 0, log = []\<rparr>"

text \<open>
  Errors are values.  \<open>ValidationError\<close> carries the error dictionary of the serializer
  as pairs of field name and error code; \<open>Http404\<close> is raised by \<open>get_object\<close> of the
  viewset, \<open>DoesNotExist\<close> by \<open>Contact.objects.get\<close>, \<open>IntegrityError\<close> by the unique
  index on \<open>email\<close>.
\<close>

datatype code = Required | Blank | Invalid | MaxLength | NullCharacters | Unique

datatype error =
  ValidationError "(string \<times> code) list"
| Http404
| DoesNotExist
| IntegrityError

text \<open>
  A request body is a dictionary from keys to strings (the values the four fields of a
  contact take); the identifier of a contact is an integer.  A string is the list of its
  characters, each a code point below 256.
\<close>

type_synonym data = "string \<rightharpoonup> string"

text \<open>
  What the caller sees of an error: the exception handler of the framework answers a
  \<open>ValidationError\<close> with status 400 and \<open>Http404\<close> with status 404; it handles no
  other exception of this program, and the server answers an unhandled one with 500.
\<close>

definition status_code :: "error \<Rightarrow> nat" where
  "status_code e =
     (case e of
        ValidationError errs \<Rightarrow> 400
      | Http404 \<Rightarrow> 404
      | DoesNotExist \<Rightarrow> 500
      | IntegrityError \<Rightarrow> 500)"

section \<open>Strings\<close>

text \<open>
  \<open>str.strip()\<close>, which the character fields of the serializer apply to their input
  (\<open>trim_whitespace\<close>): the characters Python counts as white space, among those below
  256, are removed from both ends.
\<close>

definition is_space :: "char \<Rightarrow> bool" where
  "is_space c =
     (c \<in> set [CHR 0x09, CHR 0x0A, CHR 0x0B, CHR 0x0C, CHR 0x0D, CHR 0x1C, CHR 0x1D, CHR 0x1E,
               CHR 0x1F, CHR '' '', CHR 0x85, CHR 0xA0])"

definition strip :: "string \<Rightarrow> string" where
  "strip s = rev (dropWhile is_space (rev (dropWhile is_space s)))"

section \<open>Database layer\<close>

text \<open>
  \<open>transaction.atomic\<close>, as a context manager or as a decorator: when the body raises,
  the tables and sequences are those at entry; what was sent to the channel layer stays
  sent.  The end of the block is logged.
\<close>

definition atomic :: "(state \<Rightarrow> (error + 'a) \<times> state) \<Rightarrow> state \<Rightarrow> (error + 'a) \<times> state" where
  "atomic body st =
     (case body st of
        (Inr r, st') \<Rightarrow> (Inr r, st'\<lparr>log := log st' @ [Commit]\<rparr>)
      | (Inl e, st') \<Rightarrow> (Inl e, st\<lparr>log := log st' @ [Rollback]\<rparr>))"

text \<open>\<open>time.sleep(secs)\<close>: the clock moves on.\<close>

definition sleep :: "nat \<Rightarrow> state \<Rightarrow> state" where
  "sleep secs st = st\<lparr>clock := clock st + secs * 1000000\<rparr>"

text \<open>A missing keyword argument of a \<open>CharField\<close> takes the field's default, the empty string.\<close>

definition field_or_default :: "data \<Rightarrow> string \<Rightarrow> string" where
  "field_or_default d k = (case d k of None \<Rightarrow> [] | Some v \<Rightarrow> v)"

text \<open>
  \<open>Contact.objects.create(**validated_data)\<close>: the row gets the next primary key,
  \<open>auto_now_add\<close> and \<open>auto_now\<close> read the clock; the unique index on \<open>email\<close>
  rejects a second row with the same email.
\<close>

definition new_contact :: "data \<Rightarrow> state \<Rightarrow> contact" where
  "new_contact validated_data st =
     \<lparr>pk = contact_seq st + 1,
      first_name = field_or_default validated_data ''first_name'',
      last_name = field_or_default validated_data ''last_name'',
      email = field_or_default validated_data ''email'',
      phone = field_or_default validated_data ''phone'',
      created_at = clock st,
      updated_at = clock st\<rparr>"

definition objects_create :: "data \<Rightarrow> state \<Rightarrow> (error + contact) \<times> state" where
  "objects_create validated_data st =
     (let c = new_contact validated_data st in
      if \<exists>r \<in> set (contacts st). email r = email c
      then (Inl IntegrityError, st)
      else (Inr c, st\<lparr>contacts := contacts st @ [c], contact_seq := contact_seq st + 1\<rparr>))"

text \<open>\<open>setattr(contact, k, v)\<close> for the four editable columns.\<close>

definition setattr :: "contact \<Rightarrow> string \<Rightarrow> string \<Rightarrow> contact" where
  "setattr c k v =
     (if k = ''first_name'' then c\<lparr>first_name := v\<rparr>
      else if k = ''last_name'' then c\<lparr>last_name := v\<rparr>
      else if k = ''email'' then c\<lparr>email := v\<rparr>
      else if k = ''phone'' then c\<lparr>phone := v\<rparr>
      else c)"

definition field_names :: "string list" where
  "field_names = [''first_name'', ''last_name'', ''email'', ''phone'']"

text \<open>
  \<open>for k, v in fields.items(): setattr(contact, k, v)\<close>, for a dictionary \<open>fields\<close>
  whose keys are among the four field names: the loop visits each key that is present.
\<close>

definition setattrs :: "data \<Rightarrow> contact \<Rightarrow> contact" where
  "setattrs fs c =
     fold (\<lambda>k c. case fs k of None \<Rightarrow> c | Some v \<Rightarrow> setattr c k v) field_names c"

text \<open>
  \<open>contact.save()\<close> of a row that exists: an UPDATE of the row with this primary key,
  refused by the unique index when another row has the email; \<open>auto_now\<close> refreshes
  \<open>updated_at\<close>.
\<close>

definition save :: "contact \<Rightarrow> state \<Rightarrow> (error + contact) \<times> state" where
  "save c st =
     (if \<exists>r \<in> set (contacts st). pk r \<noteq> pk c \<and> email r = email c
      then (Inl IntegrityError, st)
      else
        let c' = c\<lparr>updated_at := clock st\<rparr>
        in (Inr c', st\<lparr>contacts := map (\<lambda>r. if pk r = pk c then c' else r) (contacts st)\<rparr>))"

text \<open>
  \<open>ContactVersion.objects.create(contact=contact, first_name=contact.first_name,
  last_name=contact.last_name, email=contact.email, phone=contact.phone,
  edited_reason=reason)\<close>; \<open>edited_at\<close> defaults to \<open>timezone.now\<close>.
\<close>

definition snapshot :: "contact \<Rightarrow> string \<Rightarrow> state \<Rightarrow> contact_version" where
  "snapshot c reason st =
     \<lparr>v_pk = version_seq st + 1,
      v_contact = pk c,
      v_first_name = first_name c,
      v_last_name = last_name c,
      v_email = email c,
      v_phone = phone c,
      edited_at = clock st,
      edited_reason = reason\<rparr>"

definition version_create :: "contact \<Rightarrow> string \<Rightarrow> state \<Rightarrow> state" where
  "version_create c reason st =
     st\<lparr>versions := versions st @ [snapshot c reason st],
        version_seq := version_seq st + 1\<rparr>"

text \<open>
  \<open>instance.delete()\<close>: the row goes, and \<open>on_delete=models.CASCADE\<close> takes the
  versions that point to it; Django runs the collected deletions in one transaction.
\<close>

definition delete :: "contact \<Rightarrow> state \<Rightarrow> (error + unit) \<times> state" where
  "delete instance st =
     atomic (\<lambda>s. (Inr (),
        s\<lparr>versions := filter (\<lambda>v. v_contact v \<noteq> pk instance) (versions s),
          contacts := filter (\<lambda>c. pk c \<noteq> pk instance) (contacts s)\<rparr>)) st"

text \<open>\<open>get_object()\<close> of the viewset raises \<open>Http404\<close> when no row has the key.\<close>

definition get_object :: "int \<Rightarrow> state \<Rightarrow> error + contact" where
  "get_object i st =
     (case find (\<lambda>c. pk c = i) (contacts st) of None \<Rightarrow> Inl Http404 | Some c \<Rightarrow> Inr c)"

text \<open>
  \<open>Contact.objects.select_for_update().get(id=cid)\<close> raises \<open>Contact.DoesNotExist\<close>
  when no row matches; \<open>cid\<close> is \<open>None\<close> when the body has no \<open>id\<close>.
\<close>

definition objects_get :: "int option \<Rightarrow> state \<Rightarrow> error + contact" where
  "objects_get cid st =
     (case cid of
        None \<Rightarrow> Inl DoesNotExist
      | Some i \<Rightarrow>
          (case find (\<lambda>c. pk c = i) (contacts st) of
             None \<Rightarrow> Inl DoesNotExist
           | Some c \<Rightarrow> Inr c))"

section \<open>Serializer (backend/core/serializers.py)\<close>

text \<open>
  \<open>ContactSerializer\<close> is a \<open>ModelSerializer\<close> over \<open>Contact\<close>: \<open>id\<close>,
  \<open>created_at\<close> and \<open>updated_at\<close> are read-only, the other four fields are generated
  from the model columns.  Each is required unless the update is partial; its input is
  stripped of surrounding white space; what is empty then fails as blank before any
  validator runs; the validators of a field all run on the stripped value and their
  errors are collected: at most \<open>max_length\<close> characters (254 for an \<open>EmailField\<close>),
  no null character, and for the email, the column being unique, that no other row has
  the value, and the format.
\<close>

definition char_field :: "bool \<Rightarrow> nat \<Rightarrow> string \<Rightarrow> data \<Rightarrow> (string \<times> code) list" where
  "char_field partial max_length name d =
     (case d name of
        None \<Rightarrow> if partial then [] else [(name, Required)]
      | Some v \<Rightarrow>
          if strip v = [] then [(name, Blank)]
          else
            (if max_length < length (strip v) then [(name, MaxLength)] else []) @
            (if CHR 0x00 \<in> set (strip v) then [(name, NullCharacters)] else []))"

text \<open>The rows the uniqueness checks look at: all of them, without the instance being updated.\<close>

definition others :: "contact option \<Rightarrow> state \<Rightarrow> contact list" where
  "others instance st =
     (case instance of
        None \<Rightarrow> contacts st
      | Some i \<Rightarrow> filter (\<lambda>c. pk c \<noteq> pk i) (contacts st))"

text \<open>
  The format check of the email field is the \<open>EmailValidator\<close> of the framework, which
  is no part of the repository: it is the parameter \<open>email_ok\<close> of the email field and
  of everything that validates a body, and what is proved below of all states and bodies
  is proved for every such validator.
\<close>

definition email_field ::
  "(string \<Rightarrow> bool) \<Rightarrow> bool \<Rightarrow> contact option \<Rightarrow> data \<Rightarrow> state \<Rightarrow> (string \<times> code) list" where
  "email_field email_ok partial instance d st =
     (case d ''email'' of
        None \<Rightarrow> if partial then [] else [(''email'', Required)]
      | Some v \<Rightarrow>
          if strip v = [] then [(''email'', Blank)]
          else
            (if \<exists>c \<in> set (others instance st). email c = strip v
             then [(''email'', Unique)] else []) @
            (if 254 < length (strip v) then [(''email'', MaxLength)] else []) @
            (if CHR 0x00 \<in> set (strip v) then [(''email'', NullCharacters)] else []) @
            (if email_ok (strip v) then [] else [(''email'', Invalid)]))"

definition field_errors ::
  "(string \<Rightarrow> bool) \<Rightarrow> bool \<Rightarrow> contact option \<Rightarrow> data \<Rightarrow> state \<Rightarrow> (string \<times> code) list" where
  "field_errors email_ok partial instance d st =
     char_field partial 100 ''first_name'' d @
     char_field partial 100 ''last_name'' d @
     email_field email_ok partial instance d st @
     char_field partial 30 ''phone'' d"

text \<open>The validated fields: the stripped values of the four fields that the body has.\<close>

definition to_internal_value :: "data \<Rightarrow> data" where
  "to_internal_value d = (\<lambda>k. if k \<in> set field_names then map_option strip (d k) else None)"

text \<open>
  \<open>ContactSerializer.validate\<close>, as written:
  \<^verbatim>\<open>
    email = attrs.get("email")
    instance = getattr(self, 'instance', None)
    qs = Contact.objects.filter(email=email)
    if instance:
        qs = qs.exclude(pk=instance.pk)
    if email and qs.exists():
        raise serializers.ValidationError({"email": "Email must be unique."})
    return attrs
  \<close>
\<close>

definition validate :: "contact option \<Rightarrow> data \<Rightarrow> state \<Rightarrow> error + data" where
  "validate instance attrs st =
     (let email' = attrs ''email'';
          qs = filter (\<lambda>c. Some (email c) = email') (contacts st);
          qs = (case instance of None \<Rightarrow> qs | Some i \<Rightarrow> filter (\<lambda>c. pk c \<noteq> pk i) qs)
      in if (email' \<noteq> None \<and> email' \<noteq> Some []) \<and> qs \<noteq> []
         then Inl (ValidationError [(''email'', Unique)])
         else Inr attrs)"

text \<open>
  \<open>serializer.is_valid(raise_exception=True)\<close>: the fields first, all errors collected;
  when there are none, \<open>validate\<close> on the validated fields.
\<close>

definition is_valid ::
  "(string \<Rightarrow> bool) \<Rightarrow> bool \<Rightarrow> contact option \<Rightarrow> data \<Rightarrow> state \<Rightarrow> error + data" where
  "is_valid email_ok partial instance d st =
     (case field_errors email_ok partial instance d st of
        [] \<Rightarrow> validate instance (to_internal_value d) st
      | e # es \<Rightarrow> Inl (ValidationError (e # es)))"

text \<open>
  \<open>serializer.save()\<close>: without an instance \<open>Contact.objects.create(**validated_data)\<close>,
  with one the validated fields are set on it and it is saved.
\<close>

definition serializer_save :: "contact option \<Rightarrow> data \<Rightarrow> state \<Rightarrow> (error + contact) \<times> state" where
  "serializer_save instance validated_data st =
     (case instance of
        None \<Rightarrow> objects_create validated_data st
      | Some i \<Rightarrow> save (setattrs validated_data i) st)"

section \<open>Views (backend/core/views.py)\<close>

definition broadcast :: "string \<Rightarrow> payload \<Rightarrow> state \<Rightarrow> state" where
  "broadcast event_type p st = st\<lparr>log := log st @ [GroupSend event_type p]\<rparr>"

text \<open>The body of the \<open>with transaction.atomic()\<close> block of both hooks.\<close>

definition save_with_version ::
  "contact option \<Rightarrow> data \<Rightarrow> string \<Rightarrow> state \<Rightarrow> (error + contact) \<times> state" where
  "save_with_version instance validated_data reason st =
     (case serializer_save instance validated_data st of
        (Inl e, st') \<Rightarrow> (Inl e, st')
      | (Inr c, st') \<Rightarrow> (Inr c, version_create c reason st'))"

definition perform_create :: "data \<Rightarrow> state \<Rightarrow> (error + contact) \<times> state" where
  "perform_create validated_data st =
     (case atomic (save_with_version None validated_data ''created'') (sleep 20 st) of
        (Inl e, st') \<Rightarrow> (Inl e, st')
      | (Inr c, st') \<Rightarrow> (Inr c, broadcast ''contact.created'' (ContactData c) st'))"

definition perform_update :: "contact \<Rightarrow> data \<Rightarrow> state \<Rightarrow> (error + contact) \<times> state" where
  "perform_update instance validated_data st =
     (case atomic (save_with_version (Some instance) validated_data ''updated'') st of
        (Inl e, st') \<Rightarrow> (Inl e, st')
      | (Inr c, st') \<Rightarrow> (Inr c, broadcast ''contact.updated'' (ContactData c) st'))"

definition perform_destroy :: "contact \<Rightarrow> state \<Rightarrow> (error + unit) \<times> state" where
  "perform_destroy instance st =
     (let contact_id = pk instance in
      case delete instance st of
        (Inl e, st') \<Rightarrow> (Inl e, st')
      | (Inr u, st') \<Rightarrow> (Inr u, broadcast ''contact.deleted'' (IdOnly contact_id) st'))"

text \<open>
  The actions of \<open>ModelViewSet\<close> around the hooks: \<open>create\<close> validates the body and
  calls \<open>perform_create\<close>; \<open>update\<close> (PUT) and \<open>partial_update\<close> (PATCH) look the
  object up, validate against it and call \<open>perform_update\<close>; \<open>destroy\<close> looks the object
  up and calls \<open>perform_destroy\<close>.
\<close>

definition create :: "(string \<Rightarrow> bool) \<Rightarrow> data \<Rightarrow> state \<Rightarrow> (error + contact) \<times> state" where
  "create email_ok d st =
     (case is_valid email_ok False None d st of
        Inl e \<Rightarrow> (Inl e, st)
      | Inr validated_data \<Rightarrow> perform_create validated_data st)"

definition update ::
  "(string \<Rightarrow> bool) \<Rightarrow> int \<Rightarrow> bool \<Rightarrow> data \<Rightarrow> state \<Rightarrow> (error + contact) \<times> state" where
  "update email_ok i partial d st =
     (case get_object i st of
        Inl e \<Rightarrow> (Inl e, st)
      | Inr instance \<Rightarrow>
          (case is_valid email_ok partial (Some instance) d st of
             Inl e \<Rightarrow> (Inl e, st)
           | Inr validated_data \<Rightarrow> perform_update instance validated_data st))"

definition destroy :: "int \<Rightarrow> state \<Rightarrow> (error + unit) \<times> state" where
  "destroy i st =
     (case get_object i st of
        Inl e \<Rightarrow> (Inl e, st)
      | Inr instance \<Rightarrow> perform_destroy instance st)"

text \<open>
  The action \<open>history\<close>:
  \<^verbatim>\<open>ContactVersion.objects.filter(contact_id=pk).order_by("-edited_at")\<close>.
  An explicit \<open>order_by\<close> replaces the default ordering of the model, so the query sorts
  on \<open>edited_at\<close> alone.  \<open>history pk st rows\<close> says that \<open>rows\<close> is an answer to
  the query as SQL defines it, where rows with equal \<open>edited_at\<close> may come in any order.
\<close>

definition history :: "int \<Rightarrow> state \<Rightarrow> contact_version list \<Rightarrow> bool" where
  "history i st rows =
     (mset rows = mset (filter (\<lambda>v. v_contact v = i) (versions st)) \<and>
      sorted_wrt (\<lambda>a b. edited_at b \<le> edited_at a) rows)"


text \<open>
  The function view \<open>external_update\<close>, decorated with \<open>transaction.atomic\<close>: the whole
  body, the \<open>group_send\<close> included, runs inside the transaction.
  \<^verbatim>\<open>
    cid = request.data.get("id")
    fields = {k: v for k, v in request.data.items()
              if k in {"first_name", "last_name", "email", "phone"}}
    contact = Contact.objects.select_for_update().get(id=cid)
    for k, v in fields.items():
        setattr(contact, k, v)
    contact.save()
    ContactVersion.objects.create(contact=contact, ..., edited_reason="external_update")
    channel_layer.group_send("contacts", ... "contact.updated" ...)
    return Response(ContactSerializer(contact).data)
  \<close>
  The entry \<open>id\<close> of the body is the argument \<open>cid\<close>, the other entries are \<open>d\<close>;
  \<open>fs\<close> is the dictionary \<open>fields\<close>.
\<close>

definition external_update_body :: "int option \<Rightarrow> data \<Rightarrow> state \<Rightarrow> (error + contact) \<times> state" where
  "external_update_body cid d st =
     (let fs = d |` {''first_name'', ''last_name'', ''email'', ''phone''} in
      case objects_get cid st of
        Inl e \<Rightarrow> (Inl e, st)
      | Inr contact \<Rightarrow>
          (case save (setattrs fs contact) st of
             (Inl e, st') \<Rightarrow> (Inl e, st')
           | (Inr c, st') \<Rightarrow>
               (Inr c,
                broadcast ''contact.updated'' (ContactData c)
                  (version_create c ''external_update'' st'))))"

definition external_update :: "int option \<Rightarrow> data \<Rightarrow> state \<Rightarrow> (error + contact) \<times> state" where
  "external_update cid d = atomic (external_update_body cid d)"

section \<open>Routing (backend/backend/urls.py) and reachable states\<close>

text \<open>
  The router maps \<open>POST contacts/\<close> to \<open>create\<close>, \<open>PUT\<close> and \<open>PATCH contacts/{id}/\<close>
  to \<open>update\<close> (full and partial), \<open>DELETE contacts/{id}/\<close> to \<open>destroy\<close>, and
  \<open>POST external-update/\<close> to \<open>external_update\<close>.  The response carries the contact,
  or nothing after a deletion.
\<close>

datatype request =
  Create data
| Update int bool data
| Destroy int
| ExternalUpdate "int option" data

definition dispatch ::
  "(string \<Rightarrow> bool) \<Rightarrow> request \<Rightarrow> state \<Rightarrow> (error + contact option) \<times> state" where
  "dispatch email_ok req st =
     (case req of
        Create d \<Rightarrow> apfst (map_sum id Some) (create email_ok d st)
      | Update i partial d \<Rightarrow> apfst (map_sum id Some) (update email_ok i partial d st)
      | Destroy i \<Rightarrow> apfst (map_sum id (\<lambda>u. None)) (destroy i st)
      | ExternalUpdate cid d \<Rightarrow> apfst (map_sum id Some) (external_update cid d st))"

text \<open>
  The states the system can be in: it starts with empty tables, time passes, and requests
  are served one after the other.
\<close>

inductive reachable :: "(string \<Rightarrow> bool) \<Rightarrow> state \<Rightarrow> bool" for email_ok :: "string \<Rightarrow> bool" where
  start: "reachable email_ok init_state"
| tick: "reachable email_ok st \<Longrightarrow> reachable email_ok (st\<lparr>clock := clock st + n\<rparr>)"
| request: "reachable email_ok st \<Longrightarrow> reachable email_ok (snd (dispatch email_ok req st))"

section \<open>Auxiliary notions\<close>

text \<open>The instance after \<open>setattr\<close> of the submitted fields and \<open>save()\<close>.\<close>

definition saved :: "data \<Rightarrow> contact \<Rightarrow> state \<Rightarrow> contact" where
  "saved d inst st = (setattrs d inst)\<lparr>updated_at := clock st\<rparr>"

text \<open>The unique index refuses the save: another row holds the email the instance would get.\<close>

definition email_taken :: "data \<Rightarrow> contact \<Rightarrow> state \<Rightarrow> bool" where
  "email_taken d inst st =
     (\<exists>r \<in> set (contacts st). pk r \<noteq> pk inst \<and> email r = email (setattrs d inst))"

text \<open>What the primary key and the unique index keep true of the contact table.\<close>

definition wf_state :: "state \<Rightarrow> bool" where
  "wf_state st \<longleftrightarrow>
     distinct (map pk (contacts st)) \<and>
     distinct (map email (contacts st)) \<and>
     (\<forall>c \<in> set (contacts st). pk c \<le> contact_seq st)"



section \<open>A format validator for the example runs\<close>

text \<open>
  The runs below need a validator to pass for \<open>email_ok\<close>.  \<open>email_format_ok\<close>
  follows the regular expressions of the framework's \<open>EmailValidator\<close> on the addresses
  it accepts: at most 320 characters, a user part before the last \<open>@\<close> that is a dot-atom,
  and after it \<open>localhost\<close> or a host name, that is labels of at most 63 letters, digits
  and hyphens that begin and end with a letter or digit, then a last part of 2 to 63 such
  characters that does not end with a hyphen.  It refuses the other forms the framework
  admits (a quoted user part, an address literal, an internationalised domain), so it
  accepts no address the framework refuses.
\<close>

definition alnum :: "char \<Rightarrow> bool" where
  "alnum c = (c \<in> set ''0123456789ABCDEFGHIJKLMNOPQRSTUVWXYZabcdefghijklmnopqrstuvwxyz'')"

definition atext :: "char \<Rightarrow> bool" where
  "atext c = (alnum c \<or> c \<in> set (CHR 0x27 # ''-!#$%&*+/=?^_`{}|~''))"

fun split_on :: "char \<Rightarrow> string \<Rightarrow> string list" where
  "split_on c [] = [[]]"
| "split_on c (x # xs) =
     (if x = c then [] # split_on c xs
      else (case split_on c xs of [] \<Rightarrow> [[x]] | y # ys \<Rightarrow> (x # y) # ys))"

definition dot_atom :: "string \<Rightarrow> bool" where
  "dot_atom s = list_all (\<lambda>a. a \<noteq> [] \<and> list_all atext a) (split_on CHR ''.'' s)"

definition label :: "string \<Rightarrow> bool" where
  "label l =
     (l \<noteq> [] \<and> length l \<le> 63 \<and> list_all (\<lambda>c. alnum c \<or> c = CHR ''-'') l \<and>
      alnum (hd l) \<and> alnum (last l))"

definition tld :: "string \<Rightarrow> bool" where
  "tld t =
     (2 \<le> length t \<and> length t \<le> 63 \<and> list_all (\<lambda>c. alnum c \<or> c = CHR ''-'') t \<and>
      last t \<noteq> CHR ''-'')"

definition host_name :: "string \<Rightarrow> bool" where
  "host_name domain_part =
     (let parts = split_on CHR ''.'' domain_part
      in 2 \<le> length parts \<and> list_all label (butlast parts) \<and> tld (last parts))"

definition email_format_ok :: "string \<Rightarrow> bool" where
  "email_format_ok v =
     (let domain_part = rev (takeWhile (\<lambda>x. x \<noteq> CHR ''@'') (rev v));
          user_part = rev (drop 1 (dropWhile (\<lambda>x. x \<noteq> CHR ''@'') (rev v)))
      in v \<noteq> [] \<and> CHR ''@'' \<in> set v \<and> length v \<le> 320 \<and> dot_atom user_part \<and>
         (domain_part = ''localhost'' \<or> host_name domain_part))"

section \<open>A run used in the examples\<close>

text \<open>
  The contact of the repository's test \<open>test_create_contact_creates_version\<close>, and the
  state after creating it in the empty system: the clock stands at 20 seconds.
\<close>

definition ada_data :: data where
  "ada_data = [''first_name'' \<mapsto> ''Ada'', ''last_name'' \<mapsto> ''Lovelace'',
     ''email'' \<mapsto> ''ada@example.com'', ''phone'' \<mapsto> ''+1-555-1000'']"

definition ada :: contact where
  "ada = \<lparr>pk = 1, first_name = ''Ada'', last_name = ''Lovelace'', email = ''ada@example.com'',
     phone = ''+1-555-1000'', created_at = 20000000, updated_at = 20000000\<rparr>"

definition ada_created :: contact_version where
  "ada_created = \<lparr>v_pk = 1, v_contact = 1, v_first_name = ''Ada'', v_last_name = ''Lovelace'',
     v_email = ''ada@example.com'', v_phone = ''+1-555-1000'', edited_at = 20000000,
     edited_reason = ''created''\<rparr>"

definition st1 :: state where
  "st1 = \<lparr>contacts = [ada], versions = [ada_created],
     contact_seq = 1, version_seq = 1, clock = 20000000,
     log = [Commit, GroupSend ''contact.created'' (ContactData ada)]\<rparr>"

text \<open>
  A body that changes the phone and carries a key that is no field of a contact, the
  contact after it is applied, and the version row an update writes for it.
\<close>

definition patch :: data where
  "patch = [''phone'' \<mapsto> ''+1-555-7777'', ''nickname'' \<mapsto> ''Countess'']"

definition ada_patched :: contact where
  "ada_patched = ada\<lparr>phone := ''+1-555-7777''\<rparr>"

definition ada_updated :: contact_version where
  "ada_updated = \<lparr>v_pk = 2, v_contact = 1, v_first_name = ''Ada'', v_last_name = ''Lovelace'',
     v_email = ''ada@example.com'', v_phone = ''+1-555-7777'', edited_at = 20000000,
     edited_reason = ''updated''\<rparr>"

text \<open>
  An external update that empties the email of the contact, the contact it leaves, and
  the state after it; then a second contact, created in that state.
\<close>

definition blank_email :: data where
  "blank_email = [''email'' \<mapsto> '''']"

definition ada_blank :: contact where
  "ada_blank = ada\<lparr>email := ''''\<rparr>"

definition st_blank :: state where
  "st_blank = st1\<lparr>contacts := [ada_blank],
     versions := [ada_created,
       \<lparr>v_pk = 2, v_contact = 1, v_first_name = ''Ada'', v_last_name = ''Lovelace'',
        v_email = '''', v_phone = ''+1-555-1000'', edited_at = 20000000,
        edited_reason = ''external_update''\<rparr>],
     version_seq := 2,
     log := log st1 @ [GroupSend ''contact.updated'' (ContactData ada_blank), Commit]\<rparr>"


definition charles :: contact where
  "charles = \<lparr>pk = 2, first_name = ''Charles'', last_name = ''Babbage'',
     email = ''charles@example.com'', phone = ''+1-555-2000'',
     created_at = 40000000, updated_at = 40000000\<rparr>"








section \<open>Classifying errors\<close>


section \<open>The serializer's checks\<close>

lemma to_internal_value_simps:
  "to_internal_value d ''first_name'' = map_option strip (d ''first_name'')"
  "to_internal_value d ''last_name'' = map_option strip (d ''last_name'')"
  "to_internal_value d ''email'' = map_option strip (d ''email'')"
  "to_internal_value d ''phone'' = map_option strip (d ''phone'')"
  by (simp_all add: to_internal_value_def field_names_def)

lemma email_field_Nil_iff:
  "email_field email_ok partial inst d st = [] \<longleftrightarrow>
     (case d ''email'' of None \<Rightarrow> partial
      | Some v \<Rightarrow> strip v \<noteq> [] \<and> email_ok (strip v) \<and> length (strip v) \<le> 254 \<and>
          CHR 0x00 \<notin> set (strip v) \<and> (\<forall>c \<in> set (others inst st). email c \<noteq> strip v))"
  by (auto simp: email_field_def split: option.splits)

lemma validate_after_fields:
  assumes "email_field email_ok partial inst d st = []"
  shows "validate inst (to_internal_value d) st = Inr (to_internal_value d)"
proof (cases "d ''email''")
  case None
  then show ?thesis by (simp add: validate_def to_internal_value_simps)
next
  case (Some v)
  with assms have free: "\<forall>c \<in> set (others inst st). email c \<noteq> strip v"
    by (simp add: email_field_Nil_iff)
  have at: "to_internal_value d ''email'' = Some (strip v)"
    using Some by (simp add: to_internal_value_simps)
  show ?thesis
  proof (cases inst)
    case None
    with free have "filter (\<lambda>c. Some (email c) = Some (strip v)) (contacts st) = []"
      by (auto simp: others_def filter_empty_conv)
    with None at show ?thesis by (simp add: validate_def)
  next
    case (Some i)
    with free have "filter (\<lambda>c. pk c \<noteq> pk i)
        (filter (\<lambda>c. Some (email c) = Some (strip v)) (contacts st)) = []"
      by (auto simp: others_def filter_empty_conv)
    with Some at show ?thesis by (simp add: validate_def)
  qed
qed

lemma is_valid_eq:
  "is_valid email_ok partial inst d st =
     (if field_errors email_ok partial inst d st = [] then Inr (to_internal_value d)
      else Inl (ValidationError (field_errors email_ok partial inst d st)))"
proof (cases "field_errors email_ok partial inst d st")
  case Nil
  then have "email_field email_ok partial inst d st = []" by (simp add: field_errors_def)
  with Nil show ?thesis by (simp add: is_valid_def validate_after_fields)
next
  case (Cons e es)
  then show ?thesis by (simp add: is_valid_def)
qed

section \<open>Setting attributes\<close>

lemma setattrs_fields:
  "first_name (setattrs fs c) = (case fs ''first_name'' of None \<Rightarrow> first_name c | Some v \<Rightarrow> v)"
  "last_name (setattrs fs c) = (case fs ''last_name'' of None \<Rightarrow> last_name c | Some v \<Rightarrow> v)"
  "email (setattrs fs c) = (case fs ''email'' of None \<Rightarrow> email c | Some v \<Rightarrow> v)"
  "phone (setattrs fs c) = (case fs ''phone'' of None \<Rightarrow> phone c | Some v \<Rightarrow> v)"
  "pk (setattrs fs c) = pk c"
  "created_at (setattrs fs c) = created_at c"
  "updated_at (setattrs fs c) = updated_at c"
  by (simp_all add: setattrs_def field_names_def setattr_def split: option.splits)

lemma setattrs_cong:
  assumes "\<forall>k \<in> set field_names. fs k = fs' k"
  shows "setattrs fs c = setattrs fs' c"
  using assms by (simp add: setattrs_def field_names_def)

lemma setattrs_restrict: "setattrs (d |` set field_names) c = setattrs d c"
  by (rule setattrs_cong) (simp add: restrict_map_def)

lemma snapshot_state:
  "snapshot c reason (st\<lparr>contacts := cs\<rparr>) = snapshot c reason st"
  "snapshot c reason (st\<lparr>contact_seq := n\<rparr>) = snapshot c reason st"
  "snapshot c reason (st\<lparr>log := l\<rparr>) = snapshot c reason st"
  by (simp_all add: snapshot_def)

lemma saved_fields:
  "pk (saved d inst st) = pk inst"
  "email (saved d inst st) = email (setattrs d inst)"
  by (simp_all add: saved_def setattrs_fields)

section \<open>What each operation does\<close>

lemma get_object_Inr:
  "get_object i st = Inr c \<Longrightarrow> c \<in> set (contacts st) \<and> pk c = i"
  by (auto simp: get_object_def find_Some_iff split: option.splits)

lemma get_object_Inl:
  "get_object i st = Inl e \<Longrightarrow> e = Http404 \<and> (\<forall>c \<in> set (contacts st). pk c \<noteq> i)"
  by (auto simp: get_object_def find_None_iff split: option.splits)

lemma objects_get_Inr:
  "objects_get cid st = Inr c \<Longrightarrow> c \<in> set (contacts st) \<and> cid = Some (pk c)"
  by (auto simp: objects_get_def find_Some_iff split: option.splits)

lemma objects_get_Inl:
  "objects_get cid st = Inl e \<Longrightarrow> e = DoesNotExist \<and> (\<forall>c \<in> set (contacts st). Some (pk c) \<noteq> cid)"
  by (auto simp: objects_get_def find_None_iff split: option.splits)

lemma save_setattrs:
  "save (setattrs d inst) st =
     (if email_taken d inst st then (Inl IntegrityError, st)
      else (Inr (saved d inst st),
            st\<lparr>contacts := map (\<lambda>r. if pk r = pk inst then saved d inst st else r) (contacts st)\<rparr>))"
  by (simp add: save_def email_taken_def saved_def setattrs_fields Let_def)

lemma perform_update_eq:
  "perform_update inst vd st =
     (if email_taken vd inst st then (Inl IntegrityError, st\<lparr>log := log st @ [Rollback]\<rparr>)
      else (Inr (saved vd inst st),
            st\<lparr>contacts := map (\<lambda>r. if pk r = pk inst then saved vd inst st else r) (contacts st),
               versions := versions st @ [snapshot (saved vd inst st) ''updated'' st],
               version_seq := version_seq st + 1,
               log := log st @ [Commit, GroupSend ''contact.updated'' (ContactData (saved vd inst st))]\<rparr>))"
  by (simp add: perform_update_def atomic_def save_with_version_def serializer_save_def
      save_setattrs version_create_def broadcast_def snapshot_state)

lemma update_eq:
  "update email_ok i partial d st =
     (case get_object i st of
        Inl e \<Rightarrow> (Inl e, st)
      | Inr inst \<Rightarrow>
          if field_errors email_ok partial (Some inst) d st \<noteq> []
          then (Inl (ValidationError (field_errors email_ok partial (Some inst) d st)), st)
          else perform_update inst (to_internal_value d) st)"
  by (simp add: update_def is_valid_eq split: sum.splits)

lemma external_update_eq:
  "external_update cid d st =
     (case objects_get cid st of
        Inl e \<Rightarrow> (Inl e, st\<lparr>log := log st @ [Rollback]\<rparr>)
      | Inr inst \<Rightarrow>
          if email_taken d inst st then (Inl IntegrityError, st\<lparr>log := log st @ [Rollback]\<rparr>)
          else (Inr (saved d inst st),
            st\<lparr>contacts := map (\<lambda>r. if pk r = pk inst then saved d inst st else r) (contacts st),
               versions := versions st @ [snapshot (saved d inst st) ''external_update'' st],
               version_seq := version_seq st + 1,
               log := log st @ [GroupSend ''contact.updated'' (ContactData (saved d inst st)), Commit]\<rparr>))"
proof -
  have r: "d |` {''first_name'', ''last_name'', ''email'', ''phone''} = d |` set field_names"
    by (simp add: field_names_def)
  have s: "saved (d |` set field_names) inst st = saved d inst st"
    "email_taken (d |` set field_names) inst st = email_taken d inst st" for inst
    by (simp_all add: saved_def email_taken_def setattrs_restrict)
  show ?thesis
    by (simp add: external_update_def external_update_body_def atomic_def r
        save_setattrs s version_create_def broadcast_def snapshot_state
        split: sum.splits)
qed

lemma perform_create_eq:
  "perform_create vd st =
     (let s = sleep 20 st; c = new_contact vd s in
      if \<exists>r \<in> set (contacts st). email r = email c
      then (Inl IntegrityError, s\<lparr>log := log st @ [Rollback]\<rparr>)
      else (Inr c,
            s\<lparr>contacts := contacts st @ [c],
              contact_seq := contact_seq st + 1,
              versions := versions st @ [snapshot c ''created'' s],
              version_seq := version_seq st + 1,
              log := log st @ [Commit, GroupSend ''contact.created'' (ContactData c)]\<rparr>))"
  by (simp add: perform_create_def atomic_def save_with_version_def serializer_save_def
      objects_create_def version_create_def broadcast_def snapshot_state
      sleep_def Let_def)

lemma create_eq:
  "create email_ok d st =
     (if field_errors email_ok False None d st \<noteq> []
      then (Inl (ValidationError (field_errors email_ok False None d st)), st)
      else perform_create (to_internal_value d) st)"
  by (simp add: create_def is_valid_eq)

lemma destroy_eq:
  "destroy i st =
     (case get_object i st of
        Inl e \<Rightarrow> (Inl e, st)
      | Inr inst \<Rightarrow>
          (Inr (),
           st\<lparr>versions := filter (\<lambda>v. v_contact v \<noteq> pk inst) (versions st),
              contacts := filter (\<lambda>c. pk c \<noteq> pk inst) (contacts st),
              log := log st @ [Commit, GroupSend ''contact.deleted'' (IdOnly (pk inst))]\<rparr>))"
  by (simp add: destroy_def perform_destroy_def delete_def atomic_def broadcast_def
      split: sum.splits)

section \<open>Invariants of the contact table\<close>

lemma map_pk_replace:
  "pk c' = i \<Longrightarrow> map pk (map (\<lambda>r. if pk r = i then c' else r) xs) = map pk xs"
  by (induction xs) auto

lemma distinct_email_replace:
  assumes "distinct (map pk xs)" "distinct (map email xs)"
    and "\<forall>r \<in> set xs. pk r \<noteq> i \<longrightarrow> email r \<noteq> email c'"
  shows "distinct (map email (map (\<lambda>r. if pk r = i then c' else r) xs))"
  using assms
proof (induction xs)
  case Nil
  then show ?case by simp
next
  case (Cons x xs)
  have notin: "pk x = i \<Longrightarrow> \<forall>r \<in> set xs. pk r \<noteq> i"
    using Cons.prems(1) by (auto simp: image_iff)
  have same: "pk x = i \<Longrightarrow> map (\<lambda>r. if pk r = i then c' else r) xs = xs"
    using notin by (simp add: map_idI)
  show ?case
  proof (cases "pk x = i")
    case True
    with Cons.prems same notin show ?thesis by auto
  next
    case False
    with Cons show ?thesis by (auto simp: image_iff)
  qed
qed

lemma wf_replace:
  assumes "wf_state st" "\<not> email_taken d inst st"
  shows "wf_state (st\<lparr>contacts := map (\<lambda>r. if pk r = pk inst then saved d inst st else r) (contacts st),
           versions := vs, version_seq := n, log := l\<rparr>)"
proof -
  have "\<forall>r \<in> set (contacts st). pk r \<noteq> pk inst \<longrightarrow> email r \<noteq> email (saved d inst st)"
    using assms(2) by (auto simp: email_taken_def saved_fields)
  with assms(1) show ?thesis
    by (auto simp: wf_state_def map_pk_replace saved_fields distinct_email_replace
        simp del: map_map)
qed

lemma wf_update: "wf_state st \<Longrightarrow> wf_state (snd (update email_ok i partial d st))"
  by (auto simp: update_eq perform_update_eq wf_replace split: sum.splits)
    (simp add: wf_state_def)

lemma wf_external_update: "wf_state st \<Longrightarrow> wf_state (snd (external_update cid d st))"
  by (auto simp: external_update_eq wf_replace split: sum.splits)
    (simp_all add: wf_state_def)

lemma wf_destroy: "wf_state st \<Longrightarrow> wf_state (snd (destroy i st))"
  by (auto simp: destroy_eq wf_state_def distinct_map_filter split: sum.splits)

lemma wf_create: "wf_state st \<Longrightarrow> wf_state (snd (create email_ok d st))"
  by (auto simp: create_eq perform_create_eq wf_state_def sleep_def new_contact_def Let_def)

lemma wf_dispatch: "wf_state st \<Longrightarrow> wf_state (snd (dispatch email_ok req st))"
  by (cases req) (simp_all add: dispatch_def wf_create wf_update wf_destroy wf_external_update)

lemma reachable_wf: "reachable email_ok st \<Longrightarrow> wf_state st"
proof (induction rule: reachable.induct)
  case start
  show ?case by (simp add: wf_state_def init_state_def)
next
  case (tick st n)
  then show ?case by (simp add: wf_state_def)
next
  case (request st req)
  then show ?case by (simp add: wf_dispatch)
qed

lemma reachable_emails_distinct:
  assumes "reachable email_ok st" and "a \<in> set (contacts st)" and "b \<in> set (contacts st)"
    and "email a = email b"
  shows "a = b"
  using reachable_wf [OF assms(1)] assms(2-4)
  by (auto simp: wf_state_def distinct_map dest: inj_onD)

section \<open>Invariants of the version table\<close>








section \<open>The example run\<close>

lemma strip_plain:
  "strip ''Ada'' = ''Ada''" "strip ''Lovelace'' = ''Lovelace''"
  "strip ''ada@example.com'' = ''ada@example.com''" "strip ''+1-555-1000'' = ''+1-555-1000''"
  "strip ''+1-555-7777'' = ''+1-555-7777''" "strip [] = []"
  "strip ''Charles'' = ''Charles''" "strip ''Babbage'' = ''Babbage''"
  "strip ''charles@example.com'' = ''charles@example.com''"
  "strip ''+1-555-2000'' = ''+1-555-2000''"
  by (simp_all add: strip_def is_space_def)

lemma example_emails_ok:
  "email_format_ok ''ada@example.com''" "email_format_ok ''charles@example.com''"
  "\<not> email_format_ok []"
  by (simp_all add: email_format_ok_def dot_atom_def host_name_def label_def tld_def
      atext_def alnum_def)

lemma ada_data_ok: "field_errors email_format_ok False None ada_data init_state = []"
  by (simp add: field_errors_def char_field_def email_field_def ada_data_def
      strip_plain example_emails_ok others_def init_state_def)

lemma new_ada: "new_contact (to_internal_value ada_data) (sleep 20 init_state) = ada"
  by (simp add: new_contact_def field_or_default_def to_internal_value_simps ada_data_def
      strip_plain sleep_def init_state_def ada_def)

lemma create_ada: "create email_format_ok ada_data init_state = (Inr ada, st1)"
  by (simp add: create_eq ada_data_ok perform_create_eq new_ada Let_def)
    (simp add: init_state_def sleep_def snapshot_def st1_def ada_created_def ada_def)

lemma st1_simps:
  "contacts st1 = [ada]" "versions st1 = [ada_created]" "contact_seq st1 = 1"
  "version_seq st1 = 1" "clock st1 = 20000000"
  "log st1 = [Commit, GroupSend ''contact.created'' (ContactData ada)]"
  by (simp_all add: st1_def)

lemma ada_simps:
  "pk ada = 1" "first_name ada = ''Ada''" "last_name ada = ''Lovelace''"
  "email ada = ''ada@example.com''" "phone ada = ''+1-555-1000''"
  by (simp_all add: ada_def)

lemma get_ada: "get_object 1 st1 = Inr ada" "objects_get (Some 1) st1 = Inr ada"
  by (simp_all add: get_object_def objects_get_def st1_simps ada_simps)

lemma missing_2: "get_object 2 st1 = Inl Http404" "objects_get (Some 2) st1 = Inl DoesNotExist"
  by (simp_all add: get_object_def objects_get_def st1_simps ada_simps)

lemma saved_patch:
  "saved patch ada st1 = ada_patched" "saved (to_internal_value patch) ada st1 = ada_patched"
  by (simp_all add: saved_def setattrs_def field_names_def setattr_def to_internal_value_def
      patch_def strip_plain ada_def st1_simps ada_patched_def)

lemma ada_free: "\<not> email_taken d ada st1"
  by (simp add: email_taken_def st1_simps)

lemma patch_ok: "field_errors email_ok True (Some ada) patch st1 = []"
  by (simp add: field_errors_def char_field_def email_field_def patch_def strip_plain)

lemma snapshot_patch: "snapshot ada_patched reason st1 = ada_updated\<lparr>edited_reason := reason\<rparr>"
  by (simp add: snapshot_def st1_simps ada_patched_def ada_def ada_updated_def)

lemma external_update_patch:
  "external_update (Some 1) patch st1 =
     (Inr ada_patched,
      st1\<lparr>contacts := [ada_patched],
         versions := [ada_created, ada_updated\<lparr>edited_reason := ''external_update''\<rparr>],
         version_seq := 2,
         log := log st1 @ [GroupSend ''contact.updated'' (ContactData ada_patched), Commit]\<rparr>)"
  by (simp add: external_update_eq get_ada ada_free saved_patch snapshot_patch st1_simps ada_simps)

lemma update_patch:
  "update email_ok 1 True patch st1 =
     (Inr ada_patched,
      st1\<lparr>contacts := [ada_patched],
         versions := [ada_created, ada_updated],
         version_seq := 2,
         log := log st1 @ [Commit, GroupSend ''contact.updated'' (ContactData ada_patched)]\<rparr>)"
  by (simp add: update_eq get_ada patch_ok perform_update_eq ada_free saved_patch snapshot_patch
      st1_simps ada_simps)
    (simp add: ada_updated_def)

section \<open>Lookups and the history query\<close>

lemma objects_get_None:
  "\<forall>c \<in> set (contacts st). Some (pk c) \<noteq> cid \<Longrightarrow> objects_get cid st = Inl DoesNotExist"
  by (cases cid) (auto simp: objects_get_def find_Some_iff split: option.splits)

lemma external_update_missing_unchanged:
  assumes "\<forall>c \<in> set (contacts st). Some (pk c) \<noteq> cid"
  shows "external_update cid d st = (Inl DoesNotExist, st\<lparr>log := log st @ [Rollback]\<rparr>)"
  using assms by (simp add: external_update_eq objects_get_None)

lemma history_Nil:
  "\<forall>v \<in> set (versions st). v_contact v \<noteq> i \<Longrightarrow> history i st rows \<Longrightarrow> rows = []"
  by (auto simp: history_def filter_empty_conv[THEN iffD2])

section \<open>The runs with an emptied email\<close>

lemma saved_blank: "saved blank_email ada st1 = ada_blank"
  by (simp add: saved_def setattrs_def field_names_def setattr_def blank_email_def ada_def
      st1_simps ada_blank_def)

lemma external_update_blank: "external_update (Some 1) blank_email st1 = (Inr ada_blank, st_blank)"
  by (simp add: external_update_eq get_ada ada_free saved_blank st1_simps ada_simps st_blank_def)
    (simp add: snapshot_def ada_blank_def ada_def st1_simps)

lemma update_blank:
  "update email_ok 1 partial blank_email st1 =
     (Inl (ValidationError
        ((if partial then [] else [(''first_name'', Required), (''last_name'', Required)]) @
         [(''email'', Blank)] @ (if partial then [] else [(''phone'', Required)]))), st1)"
  by (simp add: update_eq get_ada field_errors_def char_field_def email_field_def blank_email_def
      strip_plain)

lemma reachable_st1: "reachable email_format_ok st1"
proof -
  have "snd (dispatch email_format_ok (Create ada_data) init_state) = st1"
    by (simp add: dispatch_def create_ada)
  with reachable.request [OF reachable.start, of email_format_ok "Create ada_data"]
  show ?thesis by simp
qed

lemma reachable_st_blank: "reachable email_format_ok st_blank"
proof -
  have "snd (dispatch email_format_ok (ExternalUpdate (Some 1) blank_email) st1) = st_blank"
    by (simp add: dispatch_def external_update_blank)
  with reachable.request [OF reachable_st1, of "ExternalUpdate (Some 1) blank_email"]
  show ?thesis by simp
qed

lemma st_blank_simps:
  "contacts st_blank = [ada_blank]" "contact_seq st_blank = 1" "clock st_blank = 20000000"
  by (simp_all add: st_blank_def st1_simps)

lemma ada_blank_simps: "pk ada_blank = 1" "email ada_blank = []"
  by (simp_all add: ada_blank_def ada_def)








section \<open>Effects in order\<close>

text \<open>
  The hooks of the viewset send after their transaction has ended, once on success and
  not at all on failure; \<open>external_update\<close> sends once on success and not at all on
  failure, and its send comes before the end of its transaction.
\<close>

lemma viewset_log:
  "log (snd (create email_ok d st)) =
     log st @ (case fst (create email_ok d st) of
                 Inr c \<Rightarrow> [Commit, GroupSend ''contact.created'' (ContactData c)]
               | Inl (ValidationError errs) \<Rightarrow> []
               | Inl e \<Rightarrow> [Rollback])"
  "log (snd (update email_ok i partial d st)) =
     log st @ (case fst (update email_ok i partial d st) of
                 Inr c \<Rightarrow> [Commit, GroupSend ''contact.updated'' (ContactData c)]
               | Inl IntegrityError \<Rightarrow> [Rollback]
               | Inl e \<Rightarrow> [])"
  "log (snd (destroy i st)) =
     log st @ (case fst (destroy i st) of
                 Inr u \<Rightarrow> [Commit, GroupSend ''contact.deleted'' (IdOnly i)]
               | Inl e \<Rightarrow> [])"
  by (auto simp: create_eq perform_create_eq update_eq perform_update_eq destroy_eq Let_def
      sleep_def split: sum.splits dest: get_object_Inl get_object_Inr)

lemma external_update_log:
  "log (snd (external_update cid d st)) =
     log st @ (case fst (external_update cid d st) of
                 Inr c \<Rightarrow> [GroupSend ''contact.updated'' (ContactData c), Commit]
               | Inl e \<Rightarrow> [Rollback])"
  by (simp add: external_update_eq split: sum.splits)

section \<open>External update and partial update\<close>

text \<open>
  Where a partial update succeeds, the external update that sets the same validated
  values succeeds with the same contact and the same tables but for the reason tag of the
  new version and the order of send and commit.  The converse fails: the external update
  sets values that the serializer refuses.
\<close>

lemma objects_get_Some: "objects_get (Some i) st = get_object i st \<or>
    (get_object i st = Inl Http404 \<and> objects_get (Some i) st = Inl DoesNotExist)"
  by (simp add: objects_get_def get_object_def split: option.splits)

lemma external_update_like_partial_update:
  assumes "update email_ok i True d st = (Inr c, st')"
  shows "external_update (Some i) (to_internal_value d) st =
           (Inr c, st'\<lparr>versions := versions st @ [snapshot c ''external_update'' st],
                     log := log st @ [GroupSend ''contact.updated'' (ContactData c), Commit]\<rparr>)"
proof -
  from assms obtain inst where inst: "get_object i st = Inr inst"
    by (cases "get_object i st") (auto simp: update_eq)
  with objects_get_Some [of i st] have inst': "objects_get (Some i) st = Inr inst"
    by auto
  from assms inst show ?thesis
    by (auto simp: update_eq perform_update_eq external_update_eq inst' split: if_splits)
qed

section \<open>The run with a padded email\<close>










section \<open>The history on the configured database\<close>





section \<open>Email collisions\<close>




section \<open>Claims\<close>

text \<open>
  C1.  Every successful mutation that returns a contact (create, full or partial update,
  external update) leaves the version table as it was plus exactly one new row at the end;
  that row points to the contact and carries its first name, last name, email and phone
  as they are stored after the mutation.
\<close>

theorem one_version_per_mutation:
  assumes "dispatch email_ok req st = (Inr (Some c), st')"
  shows "\<exists>v. versions st' = versions st @ [v] \<and> v_contact v = pk c \<and>
           v_first_name v = first_name c \<and> v_last_name v = last_name c \<and>
           v_email v = email c \<and> v_phone v = phone c \<and> c \<in> set (contacts st')"
proof (cases req)
  case (Create d)
  with assms have "create email_ok d st = (Inr c, st')"
    by (cases "create email_ok d st") (auto simp: dispatch_def map_sum_def split: sum.splits)
  then show ?thesis
    by (auto simp: create_eq perform_create_eq Let_def snapshot_def split: if_splits)
next
  case (Update i partial d)
  with assms have u: "update email_ok i partial d st = (Inr c, st')"
    by (cases "update email_ok i partial d st")
      (auto simp: dispatch_def map_sum_def split: sum.splits)
  then obtain inst where inst: "get_object i st = Inr inst"
    by (cases "get_object i st") (auto simp: update_eq)
  then have "inst \<in> set (contacts st)" by (simp add: get_object_Inr)
  with u inst show ?thesis
    by (auto simp: update_eq perform_update_eq snapshot_def image_iff split: if_splits)
next
  case (Destroy i)
  with assms show ?thesis
    by (cases "destroy i st") (auto simp: dispatch_def map_sum_def split: sum.splits)
next
  case (ExternalUpdate cid d)
  with assms have u: "external_update cid d st = (Inr c, st')"
    by (cases "external_update cid d st") (auto simp: dispatch_def map_sum_def split: sum.splits)
  then obtain inst where inst: "objects_get cid st = Inr inst"
    by (cases "objects_get cid st") (auto simp: external_update_eq)
  then have "inst \<in> set (contacts st)" by (simp add: objects_get_Inr)
  with u inst show ?thesis
    by (auto simp: external_update_eq snapshot_def image_iff split: if_splits)
qed

theorem one_version_per_mutation_witness:
  "dispatch email_format_ok (Create ada_data) init_state = (Inr (Some ada), st1) \<and>
   (\<exists>v. versions st1 = versions init_state @ [v] \<and> v_contact v = pk ada \<and>
      v_first_name v = first_name ada \<and> v_last_name v = last_name ada \<and>
      v_email v = email ada \<and> v_phone v = phone ada \<and> ada \<in> set (contacts st1))"
proof -
  have h: "dispatch email_format_ok (Create ada_data) init_state = (Inr (Some ada), st1)"
    by (simp add: dispatch_def create_ada)
  from h one_version_per_mutation [OF h] show ?thesis by simp
qed

text \<open>
  C2.  Evaluated on the example: an external update of the phone of contact 1 logs the
  \<open>group_send\<close> of \<open>contact.updated\<close> first and the commit of its transaction second,
  whereas the partial update with the same body logs the commit first and the send second.
  In \<open>external_update\<close> the event is sent before the write is committed.
\<close>

theorem external_update_sends_before_commit:
  "create email_format_ok ada_data init_state = (Inr ada, st1) \<and>
   log (snd (external_update (Some 1) patch st1)) =
     log st1 @ [GroupSend ''contact.updated'' (ContactData ada_patched), Commit] \<and>
   log (snd (update email_format_ok 1 True patch st1)) =
     log st1 @ [Commit, GroupSend ''contact.updated'' (ContactData ada_patched)]"
  by (simp add: create_ada external_update_patch update_patch)

text \<open>
  C3.  Evaluated on the example: a body whose email is the empty string is refused by
  \<open>update\<close>, partial and full, with the error \<open>blank\<close> on \<open>email\<close> and the state
  unchanged, whereas \<open>external_update\<close> with the same identifier and body succeeds and
  stores the contact with the empty email.  The two entry points do not have the same
  validation outcomes.
\<close>

theorem external_update_skips_validation:
  "create email_format_ok ada_data init_state = (Inr ada, st1) \<and>
   update email_format_ok 1 True blank_email st1 =
     (Inl (ValidationError [(''email'', Blank)]), st1) \<and>
   update email_format_ok 1 False (ada_data(''email'' \<mapsto> [])) st1 =
     (Inl (ValidationError [(''email'', Blank)]), st1) \<and>
   fst (external_update (Some 1) blank_email st1) = Inr ada_blank \<and>
   contacts (snd (external_update (Some 1) blank_email st1)) = [ada_blank] \<and>
   email ada_blank = []"
  by (simp add: create_ada update_blank external_update_blank st_blank_simps ada_blank_simps)
    (simp add: update_eq get_ada field_errors_def char_field_def email_field_def ada_data_def
      strip_plain)

text \<open>
  C4.  Evaluated on the example, where contact 1 exists and no contact has identifier 2:
  \<open>external_update\<close> for identifier 2 changes no table and sends nothing, but it fails
  with \<open>Contact.DoesNotExist\<close>, which no handler turns into a response, so the caller
  gets status 500; \<open>update\<close> and \<open>destroy\<close> for the same identifier fail with
  \<open>Http404\<close>, status 404.  The external update of an unknown identifier is not answered
  as not found.
\<close>

theorem external_update_missing_id_not_404:
  "create email_format_ok ada_data init_state = (Inr ada, st1) \<and>
   external_update (Some 2) patch st1 = (Inl DoesNotExist, st1\<lparr>log := log st1 @ [Rollback]\<rparr>) \<and>
   status_code DoesNotExist = 500 \<and>
   update email_format_ok 2 True patch st1 = (Inl Http404, st1) \<and>
   destroy 2 st1 = (Inl Http404, st1) \<and>
   status_code Http404 = 404"
  by (simp add: create_ada external_update_eq update_eq destroy_eq missing_2 status_code_def)

text \<open>
  C5.  A state reachable by creating a contact and sending one external update holds a
  live contact whose email is empty, hence not well-formed.  (That no two live contacts
  share an email in any reachable state is \<open>reachable_emails_distinct\<close>.)
\<close>

theorem blank_email_reachable:
  "create email_format_ok ada_data init_state = (Inr ada, st1) \<and>
   external_update (Some 1) blank_email st1 = (Inr ada_blank, st_blank) \<and>
   reachable email_format_ok st_blank \<and> contacts st_blank = [ada_blank] \<and>
   email ada_blank = [] \<and> \<not> email_format_ok (email ada_blank)"
  by (simp add: create_ada external_update_blank reachable_st_blank st_blank_simps
      ada_blank_simps example_emails_ok)









text \<open>
  C9.  Deleting an existing contact succeeds, removes its row and every version that
  points to it, and afterwards every answer of the history query for its identifier is
  the empty list.
\<close>

theorem destroy_cascades:
  assumes "c \<in> set (contacts st)"
  shows "\<exists>st'. destroy (pk c) st = (Inr (), st') \<and>
           contacts st' = filter (\<lambda>r. pk r \<noteq> pk c) (contacts st) \<and>
           versions st' = filter (\<lambda>v. v_contact v \<noteq> pk c) (versions st) \<and>
           (\<forall>rows. history (pk c) st' rows \<longrightarrow> rows = [])"
proof -
  from assms obtain inst where inst: "get_object (pk c) st = Inr inst"
    by (cases "get_object (pk c) st") (auto dest: get_object_Inl)
  then have "pk inst = pk c" by (simp add: get_object_Inr)
  with inst show ?thesis
    by (auto simp: destroy_eq intro!: history_Nil)
qed

theorem destroy_cascades_witness:
  "ada \<in> set (contacts st1) \<and>
   (\<exists>st'. destroy (pk ada) st1 = (Inr (), st') \<and>
      contacts st' = filter (\<lambda>r. pk r \<noteq> pk ada) (contacts st1) \<and>
      versions st' = filter (\<lambda>v. v_contact v \<noteq> pk ada) (versions st1) \<and>
      (\<forall>rows. history (pk ada) st' rows \<longrightarrow> rows = []))"
proof -
  have h: "ada \<in> set (contacts st1)" by (simp add: st1_def)
  from h destroy_cascades [OF h] show ?thesis by simp
qed

text \<open>
  C10.  A successful external update of an existing contact writes exactly the keys among
  \<open>first_name\<close>, \<open>last_name\<close>, \<open>email\<close>, \<open>phone\<close> that the body has: each of the
  four fields is the body's value when the key is present and the prior value otherwise,
  the primary key and \<open>created_at\<close> stay, \<open>updated_at\<close> is the time of the save, only
  the row of this contact is replaced, and two bodies that agree on the four keys have the
  same effect, whatever other keys they carry.
\<close>

theorem external_update_frame:
  assumes "objects_get cid st = Inr c0" and "external_update cid d st = (Inr c, st')"
  shows "first_name c = (case d ''first_name'' of None \<Rightarrow> first_name c0 | Some v \<Rightarrow> v) \<and>
         last_name c = (case d ''last_name'' of None \<Rightarrow> last_name c0 | Some v \<Rightarrow> v) \<and>
         email c = (case d ''email'' of None \<Rightarrow> email c0 | Some v \<Rightarrow> v) \<and>
         phone c = (case d ''phone'' of None \<Rightarrow> phone c0 | Some v \<Rightarrow> v) \<and>
         pk c = pk c0 \<and> created_at c = created_at c0 \<and> updated_at c = clock st \<and>
         contacts st' = map (\<lambda>r. if pk r = pk c0 then c else r) (contacts st) \<and>
         (\<forall>d'. (\<forall>k \<in> set field_names. d' k = d k) \<longrightarrow>
            external_update cid d' st = external_update cid d st)"
proof -
  from assms have c: "c = saved d c0 st"
    and st': "contacts st' = map (\<lambda>r. if pk r = pk c0 then c else r) (contacts st)"
    by (auto simp: external_update_eq split: if_splits)
  have frame: "external_update cid d' st = external_update cid d st"
    if "\<forall>k \<in> set field_names. d' k = d k" for d'
  proof -
    from that have "setattrs d' inst = setattrs d inst" for inst
      by (rule setattrs_cong)
    then have "saved d' inst st = saved d inst st" "email_taken d' inst st = email_taken d inst st"
      for inst
      by (simp_all add: saved_def email_taken_def)
    then show ?thesis
      by (cases "objects_get cid st") (simp_all add: external_update_eq)
  qed
  from c have "first_name c = (case d ''first_name'' of None \<Rightarrow> first_name c0 | Some v \<Rightarrow> v)"
    "last_name c = (case d ''last_name'' of None \<Rightarrow> last_name c0 | Some v \<Rightarrow> v)"
    "email c = (case d ''email'' of None \<Rightarrow> email c0 | Some v \<Rightarrow> v)"
    "phone c = (case d ''phone'' of None \<Rightarrow> phone c0 | Some v \<Rightarrow> v)"
    "pk c = pk c0" "created_at c = created_at c0" "updated_at c = clock st"
    by (simp_all add: saved_def setattrs_fields)
  with st' frame show ?thesis by blast
qed

theorem external_update_frame_witness:
  "objects_get (Some 1) st1 = Inr ada \<and>
   fst (external_update (Some 1) patch st1) = Inr ada_patched \<and>
   first_name ada_patched = first_name ada \<and> last_name ada_patched = last_name ada \<and>
   email ada_patched = email ada \<and> phone ada_patched = ''+1-555-7777'' \<and>
   pk ada_patched = pk ada \<and> created_at ada_patched = created_at ada \<and>
   updated_at ada_patched = clock st1 \<and>
   contacts (snd (external_update (Some 1) patch st1)) = [ada_patched] \<and>
   external_update (Some 1) [''phone'' \<mapsto> ''+1-555-7777''] st1 =
     external_update (Some 1) patch st1"
proof -
  have h1: "objects_get (Some 1) st1 = Inr ada" by (rule get_ada)
  have h2: "external_update (Some 1) patch st1 =
      (Inr ada_patched, snd (external_update (Some 1) patch st1))"
    by (simp add: external_update_patch)
  have h3: "\<forall>k \<in> set field_names. [''phone'' \<mapsto> ''+1-555-7777''] k = patch k"
    by (simp add: field_names_def patch_def)
  from external_update_frame [OF h1 h2]
  have "\<forall>d'. (\<forall>k \<in> set field_names. d' k = patch k) \<longrightarrow>
      external_update (Some 1) d' st1 = external_update (Some 1) patch st1"
    by (elim conjE)
  with h3 have e: "external_update (Some 1) [''phone'' \<mapsto> ''+1-555-7777''] st1 =
      external_update (Some 1) patch st1"
    by blast
  have rest: "fst (external_update (Some 1) patch st1) = Inr ada_patched"
    "contacts (snd (external_update (Some 1) patch st1)) = [ada_patched]"
    "first_name ada_patched = first_name ada" "last_name ada_patched = last_name ada"
    "email ada_patched = email ada" "phone ada_patched = ''+1-555-7777''"
    "pk ada_patched = pk ada" "created_at ada_patched = created_at ada"
    "updated_at ada_patched = clock st1"
    by (simp_all add: external_update_patch ada_patched_def ada_def st1_simps)
  from h1 e rest show ?thesis by (intro conjI)
qed

end
